theory Spec2Isabelle
  imports Main "HOL-Library.Word"
begin

unbundle bit_operations_syntax

section \<open>The Direct3D 11 shared-texture renderer of media_kit_video\<close>

text \<open>
  A shallow embedding of \<^verbatim>\<open>media_kit_video/windows/d3d11_renderer.cc\<close>. The fields of the
  C++ object are a record; the static counter and everything the code does to the
  operating system and to Direct3D live in a \<open>world\<close> value that every operation takes
  and returns. The answers of the platform (the \<open>HRESULT\<close>s and the pointers it stores
  into out-parameters) are not computed by this file of the repository: each operation
  receives them in an \<open>env\<close> record, one answer per call site.
\<close>

subsection \<open>Values\<close>

text \<open>Pointers and \<open>HANDLE\<close>s are addresses; address \<open>0\<close> is \<open>nullptr\<close>.\<close>

type_synonym ptr = nat

abbreviation nullptr :: ptr where
  "nullptr \<equiv> 0"

text \<open>\<open>int32_t\<close>: 32 bits, read as two's complement by \<open>sint\<close>.\<close>

type_synonym int32_t = "32 word"

text \<open>
  An \<open>HRESULT\<close> is a signed 32-bit status of which the code inspects the sign only
  (\<open>FAILED(hr)\<close> is \<open>hr < 0\<close>, \<open>SUCCEEDED(hr)\<close> is \<open>hr >= 0\<close>).
\<close>

type_synonym HRESULT = int

definition FAILED :: "HRESULT \<Rightarrow> bool" where
  "FAILED hr = (hr < 0)"

definition SUCCEEDED :: "HRESULT \<Rightarrow> bool" where
  "SUCCEEDED hr = (0 \<le> hr)"

datatype D3D_FEATURE_LEVEL =
    D3D_FEATURE_LEVEL_11_1
  | D3D_FEATURE_LEVEL_11_0
  | D3D_FEATURE_LEVEL_10_1
  | D3D_FEATURE_LEVEL_10_0
  | D3D_FEATURE_LEVEL_9_3

datatype D3D_DRIVER_TYPE = D3D_DRIVER_TYPE_UNKNOWN | D3D_DRIVER_TYPE_HARDWARE

datatype DXGI_FORMAT = DXGI_FORMAT_B8G8R8A8_UNORM

datatype D3D11_USAGE = D3D11_USAGE_DEFAULT

datatype D3D11_BIND_FLAG = D3D11_BIND_RENDER_TARGET | D3D11_BIND_SHADER_RESOURCE

datatype D3D11_RESOURCE_MISC_FLAG = D3D11_RESOURCE_MISC_SHARED

text \<open>The texture descriptor; a flags word is the list of the flags or-ed into it.\<close>

record D3D11_TEXTURE2D_DESC =
  Width :: "32 word"
  Height :: "32 word"
  MipLevels :: nat
  ArraySize :: nat
  Format :: DXGI_FORMAT
  SampleDesc_Count :: nat
  SampleDesc_Quality :: nat
  Usage :: D3D11_USAGE
  BindFlags :: "D3D11_BIND_FLAG list"
  CPUAccessFlags :: nat
  MiscFlags :: "D3D11_RESOURCE_MISC_FLAG list"

datatype wait_timeout = INFINITE | Milliseconds nat

text \<open>What is streamed into \<open>std::cout\<close>: string literals, unsigned numbers, \<open>std::endl\<close>.\<close>

datatype cout_item = Str string | Num nat | Endl

text \<open>
  The calls the code makes on the operating system, on DXGI and Direct3D objects and on
  the standard output, each with the arguments the code passes. \<open>Release\<close> and
  \<open>AddRef\<close> are the \<open>IUnknown\<close> calls on the object behind the pointer, whether the
  source writes them out or a smart pointer makes them.
\<close>

datatype call =
    CreateMutex ptr bool ptr
  | ReleaseMutex ptr
  | CloseHandle ptr
  | WaitForSingleObject ptr wait_timeout
  | Flush ptr
  | Release ptr
  | AddRef ptr
  | CreateDXGIFactory
  | EnumAdapters ptr nat
  | D3D11CreateDevice ptr D3D_DRIVER_TYPE "D3D_FEATURE_LEVEL list" nat
  | QueryInterface_IDXGIDevice ptr
  | SetGPUThreadPriority ptr int
  | GetFeatureLevel ptr
  | CreateTexture2D ptr D3D11_TEXTURE2D_DESC
  | As_IDXGIResource ptr
  | GetSharedHandle ptr
  | Cout "cout_item list"

subsection \<open>State\<close>

text \<open>
  The non-static data members of \<open>D3D11Renderer\<close>. A name that ends in an underscore
  cannot be used in a record update, so the member \<open>width_\<close> of the C++ class is the
  field \<open>width'\<close> here, and likewise for the others and for the static counter.
\<close>

record renderer =
  width' :: int32_t
  height' :: int32_t
  handle' :: ptr
  mutex' :: ptr
  d3d_11_device' :: ptr
  d3d_11_device_context' :: ptr
  shared_texture' :: ptr

text \<open>
  The process: the static member \<open>instance_count'\<close> (a C++ \<open>int\<close>, here unbounded: it
  counts live objects and stays far from \<open>2^31\<close>) and the calls made so far, oldest first.
\<close>

record world =
  instance_count' :: int
  trace :: "call list"

definition emit :: "call \<Rightarrow> world \<Rightarrow> world" where
  "emit c w = w\<lparr>trace := trace w @ [c]\<rparr>"

text \<open>
  The platform's answers during one operation. \<open>GetSharedHandle_out\<close> is \<open>None\<close> when
  the call leaves \<open>handle'\<close> untouched and \<open>Some h\<close> when it stores \<open>h\<close> there.
  \<open>IsWindows10RTMOrGreater\<close> is the result of \<open>Utils::IsWindows10RTMOrGreater()\<close>.
\<close>

record env =
  CreateMutex_ret :: ptr
  IsWindows10RTMOrGreater :: bool
  CreateDXGIFactory_out :: ptr
  EnumAdapters_out :: ptr
  D3D11CreateDevice_hr :: HRESULT
  D3D11CreateDevice_device :: ptr
  D3D11CreateDevice_context :: ptr
  QueryInterface_hr :: HRESULT
  QueryInterface_out :: ptr
  GetFeatureLevel_ret :: "32 word"
  CreateTexture2D_hr :: HRESULT
  CreateTexture2D_out :: ptr
  As_hr :: HRESULT
  As_out :: ptr
  GetSharedHandle_hr :: HRESULT
  GetSharedHandle_out :: "ptr option"

subsection \<open>The macros\<close>

text \<open>
  \<open>FAIL(message)\<close> prints the message; its \<open>return false\<close> is written at each use below.
  \<open>CHECK_HRESULT(message)\<close> is \<open>if (FAILED(hr)) { FAIL(message); }\<close>.
\<close>

definition FAIL :: "string \<Rightarrow> world \<Rightarrow> world" where
  "FAIL message w =
     emit (Cout [Str ''media_kit: D3D11Renderer: Failure: '', Str message, Endl]) w"

subsection \<open>Smart pointers\<close>

text \<open>
  \<open>shared_texture_\<close> is used through \<open>ComPtr\<close>'s member \<open>As\<close> (line 157), so it is a
  \<open>Microsoft::WRL::ComPtr\<close>, as the locals \<open>dxgi_device\<close> and \<open>resource\<close> are
  declared to be. A \<open>ComPtr\<close> owns one reference to what it points to: when it is
  assigned \<open>nullptr\<close>, when its address is taken for an out-parameter (\<open>operator&\<close>)
  and when it is destroyed, it calls \<open>Release\<close> on the pointer it holds, if it holds
  one. \<open>d3d_11_device_\<close> and \<open>d3d_11_device_context_\<close> are passed to
  \<open>D3D11CreateDevice\<close> by address and compared with \<open>nullptr\<close> as plain pointers.
\<close>

definition ComPtr_release :: "ptr \<Rightarrow> world \<Rightarrow> world" where
  "ComPtr_release p w = (if p \<noteq> nullptr then emit (Release p) w else w)"

subsection \<open>The member functions\<close>

text \<open>
  In \<open>CleanUp\<close> the texture is released twice: by \<open>shared_texture_->Release()\<close> and
  by the assignment \<open>shared_texture_ = nullptr\<close>, which releases the smart pointer's
  own reference.
\<close>

definition CleanUp :: "bool \<Rightarrow> renderer \<Rightarrow> world \<Rightarrow> renderer \<times> world" where
  "CleanUp release_device r w =
     (let (r, w) =
            (if shared_texture' r \<noteq> nullptr
             then (r\<lparr>shared_texture' := nullptr\<rparr>,
                   ComPtr_release (shared_texture' r) (emit (Release (shared_texture' r)) w))
             else (r, w))
      in if release_device then
           let (r, w) =
                 (if d3d_11_device_context' r \<noteq> nullptr
                  then (r\<lparr>d3d_11_device_context' := nullptr\<rparr>,
                        emit (Release (d3d_11_device_context' r)) w)
                  else (r, w));
               (r, w) =
                 (if d3d_11_device' r \<noteq> nullptr
                  then (r\<lparr>d3d_11_device' := nullptr\<rparr>,
                        emit (Release (d3d_11_device' r)) w)
                  else (r, w))
           in (r, w)
         else (r, w))"

definition feature_levels :: "D3D_FEATURE_LEVEL list" where
  "feature_levels =
     [D3D_FEATURE_LEVEL_11_1, D3D_FEATURE_LEVEL_11_0, D3D_FEATURE_LEVEL_10_1,
      D3D_FEATURE_LEVEL_10_0, D3D_FEATURE_LEVEL_9_3]"

text \<open>
  \<open>CreateD3D11Device\<close> and \<open>CreateTexture\<close> call through pointers without testing them.
  A call through \<open>nullptr\<close> is undefined behaviour: the model returns \<open>None\<close> there, and
  \<open>Some (result, fields, world)\<close> when the function returns. The local smart pointers
  \<open>dxgi_device\<close> and \<open>resource\<close> are destroyed when the function returns, after
  whatever the \<open>return\<close> statement's macro has printed.
\<close>

definition CreateD3D11Device ::
  "env \<Rightarrow> renderer \<Rightarrow> world \<Rightarrow> (bool \<times> renderer \<times> world) option" where
  "CreateD3D11Device e r w =
     (if d3d_11_device' r \<noteq> nullptr then Some (True, r, w)
      else
        let (adapter, driver_type, w) =
              (if IsWindows10RTMOrGreater e
               then (nullptr, D3D_DRIVER_TYPE_HARDWARE, w)
               else
                 let w = emit CreateDXGIFactory w;
                     dxgi = CreateDXGIFactory_out e
                 in if dxgi \<noteq> nullptr
                    then (EnumAdapters_out e, D3D_DRIVER_TYPE_UNKNOWN,
                          emit (Release dxgi) (emit (EnumAdapters dxgi 0) w))
                    else (nullptr, D3D_DRIVER_TYPE_UNKNOWN, w));
            w = emit (D3D11CreateDevice adapter driver_type feature_levels
                        (length feature_levels)) w;
            hr = D3D11CreateDevice_hr e;
            r = r\<lparr>d3d_11_device' := D3D11CreateDevice_device e,
                  d3d_11_device_context' := D3D11CreateDevice_context e\<rparr>
        in if FAILED hr then Some (False, r, FAIL ''D3D11CreateDevice'' w)
           else if d3d_11_device' r = nullptr then None
           else
             let w = emit (QueryInterface_IDXGIDevice (d3d_11_device' r)) w;
                 dxgi_device = QueryInterface_out e;
                 w = (if SUCCEEDED (QueryInterface_hr e) \<and> dxgi_device \<noteq> nullptr
                      then emit (SetGPUThreadPriority dxgi_device 5) w
                      else w);
                 w = emit (GetFeatureLevel (d3d_11_device' r)) w;
                 level = GetFeatureLevel_ret e;
                 w = emit (Cout [Str ''media_kit: D3D11Renderer: Direct3D Feature Level: '',
                                 Num (unat (drop_bit 12 level)),
                                 Str ''_'',
                                 Num (unat (drop_bit 8 level AND 0xf)),
                                 Endl]) w
             in Some (True, r, ComPtr_release dxgi_device w))"

text \<open>
  The descriptor that \<open>CreateTexture\<close> fills in from the stored dimensions; the
  assignment of an \<open>int32_t\<close> to the \<open>UINT\<close> fields keeps the 32 bits.
\<close>

definition texture_desc :: "renderer \<Rightarrow> D3D11_TEXTURE2D_DESC" where
  "texture_desc r =
     \<lparr>Width = ucast (width' r),
      Height = ucast (height' r),
      MipLevels = 1,
      ArraySize = 1,
      Format = DXGI_FORMAT_B8G8R8A8_UNORM,
      SampleDesc_Count = 1,
      SampleDesc_Quality = 0,
      Usage = D3D11_USAGE_DEFAULT,
      BindFlags = [D3D11_BIND_RENDER_TARGET, D3D11_BIND_SHADER_RESOURCE],
      CPUAccessFlags = 0,
      MiscFlags = [D3D11_RESOURCE_MISC_SHARED]\<rparr>"

definition CreateTexture ::
  "env \<Rightarrow> renderer \<Rightarrow> world \<Rightarrow> (bool \<times> renderer \<times> world) option" where
  "CreateTexture e r w =
     (if d3d_11_device' r = nullptr then None
      else
        let w = ComPtr_release (shared_texture' r) w;
            w = emit (CreateTexture2D (d3d_11_device' r) (texture_desc r)) w;
            r = r\<lparr>shared_texture' := CreateTexture2D_out e\<rparr>
        in if FAILED (CreateTexture2D_hr e)
           then Some (False, r, FAIL ''ID3D11Device::CreateTexture2D'' w)
           else if shared_texture' r = nullptr then None
           else
             let w = emit (As_IDXGIResource (shared_texture' r)) w;
                 resource = As_out e
             in if FAILED (As_hr e)
                then Some (False, r, ComPtr_release resource (FAIL ''ID3D11Texture2D::As'' w))
                else if resource = nullptr then None
                else
                  let w = emit (GetSharedHandle resource) w;
                      r = (case GetSharedHandle_out e of
                             None \<Rightarrow> r
                           | Some h \<Rightarrow> r\<lparr>handle' := h\<rparr>)
                  in if FAILED (GetSharedHandle_hr e)
                     then Some (False, r,
                                ComPtr_release resource
                                  (FAIL ''IDXGIResource::GetSharedHandle'' w))
                     else Some (True, r,
                                ComPtr_release resource
                                  (emit (AddRef (shared_texture' r)) w)))"

text \<open>
  The constructor either returns an object, or throws \<open>std::runtime_error\<close> (then the
  caller has no object and the destructor's body never runs; the members are destroyed,
  of which the smart pointer \<open>shared_texture_\<close> releases what it holds), or has run
  into a call through \<open>nullptr\<close>. Its first argument holds the values the member initialisers of the class
  declaration give the fields before the constructor's body runs; that declaration
  (\<^verbatim>\<open>d3d11_renderer.h\<close>) is not part of the sources at hand.
\<close>

datatype construction =
    Undefined_behaviour
  | Throws string world
  | Constructs renderer world

definition D3D11Renderer ::
  "renderer \<Rightarrow> env \<Rightarrow> int32_t \<Rightarrow> int32_t \<Rightarrow> world \<Rightarrow> construction" where
  "D3D11Renderer init e width height w =
     (let r = init\<lparr>width' := width, height' := height\<rparr>;
          w = emit (CreateMutex nullptr False nullptr) w;
          r = r\<lparr>mutex' := CreateMutex_ret e\<rparr>
      in case CreateD3D11Device e r w of
           None \<Rightarrow> Undefined_behaviour
         | Some (False, r, w) \<Rightarrow>
             Throws ''Unable to create Direct3D 11 device.''
               (ComPtr_release (shared_texture' r) w)
         | Some (True, r, w) \<Rightarrow>
             (case CreateTexture e r w of
                None \<Rightarrow> Undefined_behaviour
              | Some (False, r, w) \<Rightarrow>
                  Throws ''Unable to create Direct3D 11 texture.''
                    (ComPtr_release (shared_texture' r) w)
              | Some (True, r, w) \<Rightarrow>
                  Constructs r (w\<lparr>instance_count' := instance_count' w + 1\<rparr>)))"

text \<open>
  The destructor \<open>~D3D11Renderer\<close>: its body, and then the destruction of the member
  \<open>shared_texture_\<close>. The object is gone afterwards.
\<close>

definition D3D11Renderer_destructor :: "renderer \<Rightarrow> world \<Rightarrow> world" where
  "D3D11Renderer_destructor r w =
     (let (r, w) = CleanUp True r w;
          w = emit (ReleaseMutex (mutex' r)) w;
          w = emit (CloseHandle (mutex' r)) w;
          w = w\<lparr>instance_count' := instance_count' w - 1\<rparr>
      in ComPtr_release (shared_texture' r) w)"

definition SetSize ::
  "env \<Rightarrow> int32_t \<Rightarrow> int32_t \<Rightarrow> renderer \<Rightarrow> world \<Rightarrow> (renderer \<times> world) option" where
  "SetSize e width height r w =
     (if width = width' r \<and> height = height' r then Some (r, w)
      else
        let r = r\<lparr>width' := width, height' := height\<rparr>;
            (r, w) = CleanUp False r w
        in case CreateTexture e r w of
             None \<Rightarrow> None
           | Some (created, r, w) \<Rightarrow> Some (r, w))"

definition CopyTexture :: "renderer \<Rightarrow> world \<Rightarrow> renderer \<times> world" where
  "CopyTexture r w =
     (let w = emit (WaitForSingleObject (mutex' r) INFINITE) w;
          w = (if d3d_11_device_context' r \<noteq> nullptr
               then emit (Flush (d3d_11_device_context' r)) w
               else w);
          w = emit (ReleaseMutex (mutex' r)) w
      in (r, w))"

subsection \<open>What the code relies on from the platform\<close>

text \<open>
  The code calls through the pointers the platform hands out without testing them. Its
  tests of the \<open>HRESULT\<close> suffice under COM's rule for out-parameters: a call that
  reports success has stored a non-null pointer, and \<open>CreateTexture2D\<close> that reports
  failure has stored \<open>nullptr\<close>. For a texture created with
  \<open>D3D11_RESOURCE_MISC_SHARED\<close>, a successful \<open>GetSharedHandle\<close> stores a non-null
  handle.
\<close>

definition platform_contract :: "env \<Rightarrow> bool" where
  "platform_contract e \<longleftrightarrow>
     (\<not> FAILED (D3D11CreateDevice_hr e) \<longrightarrow> D3D11CreateDevice_device e \<noteq> nullptr) \<and>
     (if FAILED (CreateTexture2D_hr e)
      then CreateTexture2D_out e = nullptr
      else CreateTexture2D_out e \<noteq> nullptr) \<and>
     (\<not> FAILED (As_hr e) \<longrightarrow> As_out e \<noteq> nullptr) \<and>
     (\<not> FAILED (GetSharedHandle_hr e) \<longrightarrow>
        (case GetSharedHandle_out e of None \<Rightarrow> False | Some h \<Rightarrow> h \<noteq> nullptr))"

text \<open>All three steps of \<open>CreateTexture\<close> report success.\<close>

definition texture_creation_succeeds :: "env \<Rightarrow> bool" where
  "texture_creation_succeeds e \<longleftrightarrow>
     \<not> FAILED (CreateTexture2D_hr e) \<and> \<not> FAILED (As_hr e) \<and>
     \<not> FAILED (GetSharedHandle_hr e)"

subsection \<open>A host that owns several renderers\<close>

text \<open>
  The embedding host constructs renderers, resizes and flushes the ones it holds, and
  destroys them. The pool lists the live objects; a request names its object by its
  position in the pool and is ignored when there is no such object. A construction that
  throws adds no object. The run stops with \<open>None\<close> at undefined behaviour.
\<close>

datatype request =
    Construct env int32_t int32_t
  | Resize nat env int32_t int32_t
  | Flush_request nat
  | Destroy nat

definition step ::
  "renderer \<Rightarrow> request \<Rightarrow> renderer list \<times> world \<Rightarrow> (renderer list \<times> world) option" where
  "step init q s =
     (let (pool, w) = s
      in case q of
           Construct e width height \<Rightarrow>
             (case D3D11Renderer init e width height w of
                Undefined_behaviour \<Rightarrow> None
              | Throws message w' \<Rightarrow> Some (pool, w')
              | Constructs r w' \<Rightarrow> Some (pool @ [r], w'))
         | Resize i e width height \<Rightarrow>
             (if i < length pool
              then (case SetSize e width height (pool ! i) w of
                      None \<Rightarrow> None
                    | Some (r, w') \<Rightarrow> Some (pool[i := r], w'))
              else Some (pool, w))
         | Flush_request i \<Rightarrow>
             (if i < length pool
              then (let (r, w') = CopyTexture (pool ! i) w in Some (pool[i := r], w'))
              else Some (pool, w))
         | Destroy i \<Rightarrow>
             (if i < length pool
              then Some (take i pool @ drop (Suc i) pool,
                         D3D11Renderer_destructor (pool ! i) w)
              else Some (pool, w)))"

fun run ::
  "renderer \<Rightarrow> request list \<Rightarrow> renderer list \<times> world \<Rightarrow> (renderer list \<times> world) option" where
  "run init [] s = Some s"
| "run init (q # qs) s = (case step init q s of None \<Rightarrow> None | Some s' \<Rightarrow> run init qs s')"

text \<open>Flushing the renderers of a list, one call each, in order.\<close>

fun flush_each :: "renderer list \<Rightarrow> world \<Rightarrow> world" where
  "flush_each [] w = w"
| "flush_each (r # rs) w = flush_each rs (snd (CopyTexture r w))"

text \<open>How often a trace waits for the mutex \<open>m\<close>, and how often it releases it.\<close>

fun is_acquire :: "ptr \<Rightarrow> call \<Rightarrow> bool" where
  "is_acquire m (WaitForSingleObject p t) = (p = m)"
| "is_acquire m c = False"

fun is_release :: "ptr \<Rightarrow> call \<Rightarrow> bool" where
  "is_release m (ReleaseMutex p) = (p = m)"
| "is_release m c = False"

definition acquires :: "ptr \<Rightarrow> world \<Rightarrow> nat" where
  "acquires m w = length (filter (is_acquire m) (trace w))"

definition releases :: "ptr \<Rightarrow> world \<Rightarrow> nat" where
  "releases m w = length (filter (is_release m) (trace w))"

text \<open>How many mutexes a trace creates, and how many handles it closes.\<close>

fun is_CreateMutex :: "call \<Rightarrow> bool" where
  "is_CreateMutex (CreateMutex a b n) = True"
| "is_CreateMutex c = False"

fun is_CloseHandle :: "call \<Rightarrow> bool" where
  "is_CloseHandle (CloseHandle h) = True"
| "is_CloseHandle c = False"

subsection \<open>The invariant and the failure state as the specification words them\<close>

text \<open>
  The specification's data model: ``\<open>exported_handle\<close> is non-null if and only if a
  texture currently exists''.
\<close>

definition spec_handle_iff_texture :: "renderer \<Rightarrow> bool" where
  "spec_handle_iff_texture r \<longleftrightarrow> (handle' r \<noteq> nullptr) = (shared_texture' r \<noteq> nullptr)"

text \<open>
  The specification on a resize that fails: ``leaves the instance with no texture and a
  null exported handle''.
\<close>

definition spec_no_texture_null_handle :: "renderer \<Rightarrow> bool" where
  "spec_no_texture_null_handle r \<longleftrightarrow> shared_texture' r = nullptr \<and> handle' r = nullptr"

text \<open>
  The specification on the synchronization handle: released exactly once, ``no
  double-free, no leak'', also after a creation that failed. On a trace: as many handles
  closed as mutexes created.
\<close>

definition spec_no_leak_no_double_free :: "world \<Rightarrow> bool" where
  "spec_no_leak_no_double_free w \<longleftrightarrow>
     length (filter is_CloseHandle (trace w)) = length (filter is_CreateMutex (trace w))"

subsection \<open>Concrete objects and answers\<close>

text \<open>The process at its start: \<open>int D3D11Renderer::instance_count_ = 0\<close>, no call made.\<close>

definition world0 :: world where
  "world0 = \<lparr>instance_count' = 0, trace = []\<rparr>"

text \<open>Members before the constructor's body: every pointer null.\<close>

definition null_members :: renderer where
  "null_members =
     \<lparr>width' = 0, height' = 0, handle' = nullptr, mutex' = nullptr,
      d3d_11_device' = nullptr, d3d_11_device_context' = nullptr,
      shared_texture' = nullptr\<rparr>"

text \<open>A recent Windows on which every call succeeds (\<open>S_OK\<close> is \<open>0\<close>).\<close>

definition answers_ok :: env where
  "answers_ok =
     \<lparr>CreateMutex_ret = 700,
      IsWindows10RTMOrGreater = True,
      CreateDXGIFactory_out = nullptr,
      EnumAdapters_out = nullptr,
      D3D11CreateDevice_hr = 0,
      D3D11CreateDevice_device = 100,
      D3D11CreateDevice_context = 200,
      QueryInterface_hr = 0,
      QueryInterface_out = 300,
      GetFeatureLevel_ret = 0xb100,
      CreateTexture2D_hr = 0,
      CreateTexture2D_out = 400,
      As_hr = 0,
      As_out = 500,
      GetSharedHandle_hr = 0,
      GetSharedHandle_out = Some 600\<rparr>"

text \<open>The texture cannot be allocated: \<open>E_OUTOFMEMORY\<close>, \<open>0x8007000E\<close>.\<close>

definition answers_no_texture :: env where
  "answers_no_texture =
     answers_ok\<lparr>CreateTexture2D_hr := - 2147024882, CreateTexture2D_out := nullptr\<rparr>"

text \<open>No device: \<open>DXGI_ERROR_UNSUPPORTED\<close>, \<open>0x887A0004\<close>.\<close>

definition answers_no_device :: env where
  "answers_no_device =
     answers_ok\<lparr>D3D11CreateDevice_hr := - 2005270524,
                D3D11CreateDevice_device := nullptr,
                D3D11CreateDevice_context := nullptr\<rparr>"

text \<open>
  A new texture is allocated at 450 and answers \<open>As\<close> with the resource at 550, but
  \<open>GetSharedHandle\<close> fails (\<open>E_FAIL\<close>, \<open>0x80004005\<close>) and stores nothing.
\<close>

definition answers_no_handle :: env where
  "answers_no_handle =
     answers_ok\<lparr>CreateTexture2D_out := 450,
                As_out := 550,
                GetSharedHandle_hr := - 2147467259,
                GetSharedHandle_out := None\<rparr>"

text \<open>An older Windows with a DXGI factory at 800 whose first adapter is at 900.\<close>

definition answers_old_windows :: env where
  "answers_old_windows =
     answers_ok\<lparr>IsWindows10RTMOrGreater := False,
                CreateDXGIFactory_out := 800,
                EnumAdapters_out := 900\<rparr>"

text \<open>The object that \<open>D3D11Renderer(1920, 1080)\<close> builds from \<open>answers_ok\<close>.\<close>

definition renderer_1080p :: renderer where
  "renderer_1080p =
     \<lparr>width' = 1920, height' = 1080, handle' = 600, mutex' = 700,
      d3d_11_device' = 100, d3d_11_device_context' = 200, shared_texture' = 400\<rparr>"

text \<open>That object after \<open>SetSize(1280, 720)\<close> could not allocate the new texture.\<close>

definition renderer_720p_no_texture :: renderer where
  "renderer_720p_no_texture =
     \<lparr>width' = 1280, height' = 720, handle' = 600, mutex' = 700,
      d3d_11_device' = 100, d3d_11_device_context' = 200, shared_texture' = nullptr\<rparr>"

text \<open>
  The 1920 by 1080 object after a \<open>SetSize(1280, 720)\<close> in which the new texture was
  allocated at 450 and \<open>GetSharedHandle\<close> failed.
\<close>

definition renderer_720p_no_handle :: renderer where
  "renderer_720p_no_handle =
     \<lparr>width' = 1280, height' = 720, handle' = 600, mutex' = 700,
      d3d_11_device' = 100, d3d_11_device_context' = 200, shared_texture' = 450\<rparr>"

text \<open>
  The process after \<open>D3D11Renderer(640, 480)\<close> has thrown for want of a device, from
  the program's start.
\<close>

definition world_after_failed_construction :: world where
  "world_after_failed_construction =
     \<lparr>instance_count' = 0,
      trace =
        [CreateMutex nullptr False nullptr,
         D3D11CreateDevice nullptr D3D_DRIVER_TYPE_HARDWARE feature_levels 5,
         Cout [Str ''media_kit: D3D11Renderer: Failure: '', Str ''D3D11CreateDevice'',
               Endl]]\<rparr>"

section \<open>Auxiliary facts\<close>

lemmas code_defs =
  D3D11Renderer_def CreateD3D11Device_def CreateTexture_def SetSize_def CleanUp_def
  CopyTexture_def D3D11Renderer_destructor_def texture_desc_def feature_levels_def
  FAIL_def emit_def FAILED_def SUCCEEDED_def ComPtr_release_def

lemma instance_count_emit: "instance_count' (emit c w) = instance_count' w"
  by (simp add: emit_def)

lemma instance_count_FAIL: "instance_count' (FAIL m w) = instance_count' w"
  by (simp add: FAIL_def instance_count_emit)

lemma instance_count_ComPtr_release:
  "instance_count' (ComPtr_release p w) = instance_count' w"
  by (simp add: ComPtr_release_def instance_count_emit)

lemma ComPtr_release_trace:
  "ComPtr_release p w = w\<lparr>trace := trace w @ (if p \<noteq> nullptr then [Release p] else [])\<rparr>"
  by (simp add: ComPtr_release_def emit_def)

subsection \<open>\<open>CleanUp\<close>, \<open>CopyTexture\<close> and the destructor in closed form\<close>

lemma CleanUp_False:
  "CleanUp False r w =
     (r\<lparr>shared_texture' := nullptr\<rparr>,
      w\<lparr>trace := trace w
           @ (if shared_texture' r \<noteq> nullptr
              then [Release (shared_texture' r), Release (shared_texture' r)] else [])\<rparr>)"
  by (simp add: CleanUp_def ComPtr_release_def emit_def)

lemma CleanUp_True:
  "CleanUp True r w =
     (r\<lparr>shared_texture' := nullptr, d3d_11_device_context' := nullptr,
        d3d_11_device' := nullptr\<rparr>,
      w\<lparr>trace := trace w
           @ (if shared_texture' r \<noteq> nullptr
              then [Release (shared_texture' r), Release (shared_texture' r)] else [])
           @ (if d3d_11_device_context' r \<noteq> nullptr
              then [Release (d3d_11_device_context' r)] else [])
           @ (if d3d_11_device' r \<noteq> nullptr then [Release (d3d_11_device' r)] else [])\<rparr>)"
  by (simp add: CleanUp_def ComPtr_release_def emit_def)

lemma CleanUp_fields:
  "shared_texture' (fst (CleanUp b r w)) = nullptr"
  "handle' (fst (CleanUp b r w)) = handle' r"
  "mutex' (fst (CleanUp b r w)) = mutex' r"
  "width' (fst (CleanUp b r w)) = width' r"
  "height' (fst (CleanUp b r w)) = height' r"
  "instance_count' (snd (CleanUp b r w)) = instance_count' w"
  by (cases b; simp add: CleanUp_False CleanUp_True)+

lemma CopyTexture_eq:
  "CopyTexture r w =
     (r, w\<lparr>trace := trace w
              @ [WaitForSingleObject (mutex' r) INFINITE]
              @ (if d3d_11_device_context' r \<noteq> nullptr
                 then [Flush (d3d_11_device_context' r)] else [])
              @ [ReleaseMutex (mutex' r)]\<rparr>)"
  by (simp add: CopyTexture_def emit_def)

lemma destructor_eq:
  "D3D11Renderer_destructor r w =
     w\<lparr>trace := trace w
          @ (if shared_texture' r \<noteq> nullptr
             then [Release (shared_texture' r), Release (shared_texture' r)] else [])
          @ (if d3d_11_device_context' r \<noteq> nullptr
             then [Release (d3d_11_device_context' r)] else [])
          @ (if d3d_11_device' r \<noteq> nullptr then [Release (d3d_11_device' r)] else [])
          @ [ReleaseMutex (mutex' r), CloseHandle (mutex' r)],
        instance_count' := instance_count' w - 1\<rparr>"
  by (simp add: D3D11Renderer_destructor_def CleanUp_True ComPtr_release_def emit_def)

subsection \<open>\<open>CreateTexture\<close> and \<open>CreateD3D11Device\<close>\<close>

text \<open>Under the platform's contract neither function calls through \<open>nullptr\<close>.\<close>

lemma CreateTexture_returns:
  assumes "platform_contract e" and "d3d_11_device' r \<noteq> nullptr"
  shows "CreateTexture e r w \<noteq> None"
  using assms
  by (auto simp: CreateTexture_def platform_contract_def Let_def split: if_splits)

lemma CreateD3D11Device_returns:
  assumes "platform_contract e"
  shows "CreateD3D11Device e r w \<noteq> None"
  using assms
  by (auto simp: CreateD3D11Device_def platform_contract_def Let_def
           split: if_splits prod.splits)

text \<open>What they leave alone.\<close>

lemma CreateTexture_keeps:
  assumes "CreateTexture e r w = Some (created, r', w')"
  shows "width' r' = width' r \<and> height' r' = height' r \<and> mutex' r' = mutex' r \<and>
         d3d_11_device' r' = d3d_11_device' r \<and>
         d3d_11_device_context' r' = d3d_11_device_context' r \<and>
         instance_count' w' = instance_count' w"
  using assms
  by (auto simp: CreateTexture_def Let_def instance_count_emit instance_count_FAIL
                 instance_count_ComPtr_release
           split: if_splits option.splits)

lemma CreateD3D11Device_keeps:
  assumes "CreateD3D11Device e r w = Some (created, r', w')"
  shows "instance_count' w' = instance_count' w"
  using assms
  by (auto simp: CreateD3D11Device_def Let_def instance_count_emit instance_count_FAIL
                 instance_count_ComPtr_release
           split: if_splits prod.splits)

text \<open>What a \<open>true\<close> result means.\<close>

lemma CreateTexture_true:
  assumes "platform_contract e" and "CreateTexture e r w = Some (True, r', w')"
  shows "handle' r' \<noteq> nullptr \<and> shared_texture' r' \<noteq> nullptr"
  using assms
  by (auto simp: CreateTexture_def platform_contract_def Let_def
           split: if_splits option.splits)

lemma CreateTexture_succeeds:
  assumes "platform_contract e" and "d3d_11_device' r \<noteq> nullptr"
    and "texture_creation_succeeds e"
  shows "\<exists>r' w'. CreateTexture e r w = Some (True, r', w')"
  using assms
  by (simp add: CreateTexture_def platform_contract_def texture_creation_succeeds_def Let_def)

lemma CreateD3D11Device_true:
  assumes "CreateD3D11Device e r w = Some (True, r', w')"
  shows "d3d_11_device' r' \<noteq> nullptr"
  using assms
  by (auto simp: CreateD3D11Device_def Let_def split: if_splits prod.splits)

text \<open>
  On a renderer that holds no texture, the first call of \<open>CreateTexture\<close> is the
  allocation, with the stored dimensions.
\<close>

lemma CreateTexture_trace:
  assumes "CreateTexture e r w = Some (created, r', w')"
    and "shared_texture' r = nullptr"
  shows "\<exists>rest. trace w' =
           trace w @ CreateTexture2D (d3d_11_device' r) (texture_desc r) # rest"
  using assms
  by (auto simp: CreateTexture_def Let_def FAIL_def emit_def ComPtr_release_def
           split: if_splits option.splits)

text \<open>The handle after a resize is the old one or the one \<open>GetSharedHandle\<close> stored.\<close>

lemma CreateTexture_handle:
  assumes "CreateTexture e r w = Some (created, r', w')"
  shows "handle' r' = handle' r \<or> GetSharedHandle_out e = Some (handle' r')"
  using assms
  by (auto simp: CreateTexture_def Let_def split: if_splits option.splits)

lemma SetSize_handle:
  assumes "SetSize e width height r w = Some (r', w')"
  shows "handle' r' = handle' r \<or> GetSharedHandle_out e = Some (handle' r')"
proof (cases "width = width' r \<and> height = height' r")
  case True
  with assms show ?thesis by (simp add: SetSize_def)
next
  case False
  obtain r1 w1 where c: "CleanUp False (r\<lparr>width' := width, height' := height\<rparr>) w = (r1, w1)"
    by (cases "CleanUp False (r\<lparr>width' := width, height' := height\<rparr>) w")
  from assms False c obtain created where
    t: "CreateTexture e r1 w1 = Some (created, r', w')"
    by (auto simp: SetSize_def split: option.splits)
  have "handle' r1 = handle' r"
    using CleanUp_fields(2) [of False "r\<lparr>width' := width, height' := height\<rparr>" w] c by simp
  with CreateTexture_handle [OF t] show ?thesis by simp
qed

lemma SetSize_allocation_fails:
  assumes "width \<noteq> width' r \<or> height \<noteq> height' r"
    and "d3d_11_device' r \<noteq> nullptr"
    and "platform_contract e"
    and "FAILED (CreateTexture2D_hr e)"
  shows "map_option fst (SetSize e width height r w) =
           Some (r\<lparr>width' := width, height' := height, shared_texture' := nullptr\<rparr>)"
  using assms
  by (auto simp: SetSize_def CleanUp_False CreateTexture_def platform_contract_def Let_def)

subsection \<open>The counter along the operations\<close>

lemma SetSize_keeps:
  assumes "SetSize e width height r w = Some (r', w')"
  shows "instance_count' w' = instance_count' w"
proof (cases "width = width' r \<and> height = height' r")
  case True
  with assms show ?thesis by (simp add: SetSize_def)
next
  case False
  obtain r1 w1 where c: "CleanUp False (r\<lparr>width' := width, height' := height\<rparr>) w = (r1, w1)"
    by (cases "CleanUp False (r\<lparr>width' := width, height' := height\<rparr>) w")
  from assms False c obtain created where
    t: "CreateTexture e r1 w1 = Some (created, r', w')"
    by (auto simp: SetSize_def split: option.splits)
  have "instance_count' w1 = instance_count' w"
    using CleanUp_fields(6) [of False "r\<lparr>width' := width, height' := height\<rparr>" w] c by simp
  with CreateTexture_keeps [OF t] show ?thesis by simp
qed

lemma D3D11Renderer_count:
  "case D3D11Renderer init e width height w of
     Undefined_behaviour \<Rightarrow> True
   | Throws message w' \<Rightarrow> instance_count' w' = instance_count' w
   | Constructs r w' \<Rightarrow> instance_count' w' = instance_count' w + 1"
proof -
  let ?r = "init\<lparr>width' := width, height' := height, mutex' := CreateMutex_ret e\<rparr>"
  let ?w = "emit (CreateMutex nullptr False nullptr) w"
  show ?thesis
  proof (cases "CreateD3D11Device e ?r ?w")
    case None
    then show ?thesis by (simp add: D3D11Renderer_def)
  next
    case (Some a)
    then obtain b r1 w1 where d: "CreateD3D11Device e ?r ?w = Some (b, r1, w1)"
      by (cases a) auto
    have c1: "instance_count' w1 = instance_count' w"
      using CreateD3D11Device_keeps [OF d] by (simp add: instance_count_emit)
    show ?thesis
    proof (cases b)
      case False
      with d c1 show ?thesis
        by (simp add: D3D11Renderer_def instance_count_ComPtr_release)
    next
      case True
      show ?thesis
      proof (cases "CreateTexture e r1 w1")
        case None
        with d True show ?thesis by (simp add: D3D11Renderer_def)
      next
        case (Some a2)
        then obtain b2 r2 w2 where t: "CreateTexture e r1 w1 = Some (b2, r2, w2)"
          by (cases a2) auto
        have "instance_count' w2 = instance_count' w1"
          using CreateTexture_keeps [OF t] by simp
        with d True t c1 show ?thesis
          by (cases b2) (simp_all add: D3D11Renderer_def instance_count_ComPtr_release)
      qed
    qed
  qed
qed

text \<open>The counter minus the number of live objects is the same before and after a run.\<close>

lemma step_balance:
  assumes "step init q (pool, w) = Some (pool', w')"
  shows "instance_count' w' - int (length pool') = instance_count' w - int (length pool)"
proof (cases q)
  case (Construct e width height)
  with assms D3D11Renderer_count [where init = init and e = e and width = width
                                    and height = height and w = w]
  show ?thesis
    by (auto simp: step_def split: construction.splits)
next
  case (Resize i e width height)
  with assms show ?thesis
    by (auto simp: step_def split: if_splits option.splits dest: SetSize_keeps)
next
  case (Flush_request i)
  with assms show ?thesis
    by (auto simp: step_def CopyTexture_eq split: if_splits)
next
  case (Destroy i)
  with assms show ?thesis
    by (auto simp: step_def destructor_eq split: if_splits)
qed

lemma run_balance:
  "run init qs (pool, w) = Some (pool', w') \<Longrightarrow>
   instance_count' w' - int (length pool') = instance_count' w - int (length pool)"
proof (induction qs arbitrary: pool w)
  case Nil
  then show ?case by simp
next
  case (Cons q qs)
  from Cons.prems obtain pool1 w1 where
    s: "step init q (pool, w) = Some (pool1, w1)" and
    r: "run init qs (pool1, w1) = Some (pool', w')"
    by (auto split: option.splits)
  from Cons.IH [OF r] step_balance [OF s] show ?case by simp
qed

subsection \<open>Waits and releases of a flush\<close>

lemma CopyTexture_counts:
  "acquires m (snd (CopyTexture r w)) = acquires m w + (if mutex' r = m then 1 else 0)"
  "releases m (snd (CopyTexture r w)) = releases m w + (if mutex' r = m then 1 else 0)"
  by (simp_all add: CopyTexture_eq acquires_def releases_def)

lemma flush_each_balance:
  "int (acquires m (flush_each rs w)) - int (releases m (flush_each rs w))
   = int (acquires m w) - int (releases m w)"
  by (induction rs arbitrary: w) (simp_all add: CopyTexture_counts)

section \<open>Properties\<close>

subsection \<open>The exported handle and the texture\<close>

text \<open>
  C1 (as amended). The handle and the texture do not stay in step in every state; what
  holds is this. Under the platform's contract, an object that the constructor returns
  has a non-null \<open>handle_\<close> and a non-null \<open>shared_texture_\<close>, and so has the object
  after a \<open>SetSize\<close> to other dimensions in which all three steps of texture creation
  succeed. After any \<open>SetSize\<close> that returns, \<open>handle_\<close> is the old one or the value
  that \<open>GetSharedHandle\<close> stored in that call; \<open>CleanUp\<close> (with either argument) sets
  \<open>shared_texture_\<close> to \<open>nullptr\<close> and leaves \<open>handle_\<close> as it was; \<open>CopyTexture\<close>
  changes no field. A \<open>SetSize\<close> to other dimensions, on an object with a device, whose
  \<open>CreateTexture2D\<close> fails leaves no texture and the handle it found.
\<close>

theorem handle_and_texture_after_operations:
  assumes "platform_contract e"
  shows
    "(case D3D11Renderer init e width height w of
        Constructs r' w' \<Rightarrow> handle' r' \<noteq> nullptr \<and> shared_texture' r' \<noteq> nullptr
      | Throws message w' \<Rightarrow> True
      | Undefined_behaviour \<Rightarrow> True)
     \<and> ((new_width \<noteq> width' r \<or> new_height \<noteq> height' r) \<and> d3d_11_device' r \<noteq> nullptr
          \<and> texture_creation_succeeds e \<longrightarrow>
        (case SetSize e new_width new_height r w of
           Some (r', w') \<Rightarrow> handle' r' \<noteq> nullptr \<and> shared_texture' r' \<noteq> nullptr
         | None \<Rightarrow> False))
     \<and> shared_texture' (fst (CleanUp release_device r w)) = nullptr
     \<and> handle' (fst (CleanUp release_device r w)) = handle' r
     \<and> fst (CopyTexture r w) = r
     \<and> (case SetSize e new_width new_height r w of
           Some (r', w') \<Rightarrow>
             handle' r' = handle' r \<or> GetSharedHandle_out e = Some (handle' r')
         | None \<Rightarrow> True)
     \<and> ((new_width \<noteq> width' r \<or> new_height \<noteq> height' r) \<and> d3d_11_device' r \<noteq> nullptr
          \<and> FAILED (CreateTexture2D_hr e) \<longrightarrow>
        (case SetSize e new_width new_height r w of
           Some (r', w') \<Rightarrow> handle' r' = handle' r \<and> shared_texture' r' = nullptr
         | None \<Rightarrow> False))"
proof (intro conjI impI)
  show "case D3D11Renderer init e width height w of
          Constructs r' w' \<Rightarrow> handle' r' \<noteq> nullptr \<and> shared_texture' r' \<noteq> nullptr
        | Throws message w' \<Rightarrow> True
        | Undefined_behaviour \<Rightarrow> True"
    using CreateTexture_true [OF assms]
    by (auto simp: D3D11Renderer_def split: construction.splits option.splits bool.splits)
next
  assume a: "(new_width \<noteq> width' r \<or> new_height \<noteq> height' r)
             \<and> d3d_11_device' r \<noteq> nullptr \<and> texture_creation_succeeds e"
  let ?r = "r\<lparr>width' := new_width, height' := new_height, shared_texture' := nullptr\<rparr>"
  let ?w = "snd (CleanUp False (r\<lparr>width' := new_width, height' := new_height\<rparr>) w)"
  from a have "d3d_11_device' ?r \<noteq> nullptr" by simp
  from CreateTexture_succeeds [OF assms this, of ?w] a obtain r' w' where
    t: "CreateTexture e ?r ?w = Some (True, r', w')" by auto
  from a t have "SetSize e new_width new_height r w = Some (r', w')"
    by (auto simp: SetSize_def CleanUp_False)
  with CreateTexture_true [OF assms t]
  show "case SetSize e new_width new_height r w of
          Some (r', w') \<Rightarrow> handle' r' \<noteq> nullptr \<and> shared_texture' r' \<noteq> nullptr
        | None \<Rightarrow> False"
    by simp
next
  show "case SetSize e new_width new_height r w of
          Some (r', w') \<Rightarrow>
            handle' r' = handle' r \<or> GetSharedHandle_out e = Some (handle' r')
        | None \<Rightarrow> True"
    using SetSize_handle [of e new_width new_height r w]
    by (auto split: option.splits)
next
  assume "(new_width \<noteq> width' r \<or> new_height \<noteq> height' r)
          \<and> d3d_11_device' r \<noteq> nullptr \<and> FAILED (CreateTexture2D_hr e)"
  with SetSize_allocation_fails [of new_width r new_height e w] assms
  show "case SetSize e new_width new_height r w of
          Some (r', w') \<Rightarrow> handle' r' = handle' r \<and> shared_texture' r' = nullptr
        | None \<Rightarrow> False"
    by (auto split: option.splits)
qed (simp_all add: CleanUp_fields CopyTexture_eq)

text \<open>
  The amended statement at work: \<open>D3D11Renderer(1920, 1080)\<close> on a platform where
  every call succeeds, a successful \<open>SetSize(1280, 720)\<close> on the object, a
  \<open>CleanUp(false)\<close> of it, and a \<open>SetSize(1280, 720)\<close> on it that cannot allocate.
\<close>

theorem handle_and_texture_after_operations_witness:
  "platform_contract answers_ok
   \<and> map_option fst (run null_members [Construct answers_ok 1920 1080] ([], world0))
     = Some [renderer_1080p]
   \<and> handle' renderer_1080p \<noteq> nullptr \<and> shared_texture' renderer_1080p \<noteq> nullptr
   \<and> texture_creation_succeeds answers_ok
   \<and> map_option fst (SetSize answers_ok 1280 720 renderer_1080p world0)
     = Some (renderer_1080p\<lparr>width' := 1280, height' := 720\<rparr>)
   \<and> fst (CleanUp False renderer_1080p world0) = renderer_1080p\<lparr>shared_texture' := nullptr\<rparr>
   \<and> platform_contract answers_no_texture
   \<and> FAILED (CreateTexture2D_hr answers_no_texture)
   \<and> map_option fst (SetSize answers_no_texture 1280 720 renderer_1080p world0)
     = Some renderer_720p_no_texture
   \<and> handle' renderer_720p_no_texture = handle' renderer_1080p
   \<and> shared_texture' renderer_720p_no_texture = nullptr"
  using handle_and_texture_after_operations
          [where e = answers_ok and init = null_members and width = 1920 and height = 1080
             and w = world0 and new_width = 1280 and new_height = 720
             and r = renderer_1080p and release_device = False]
        handle_and_texture_after_operations
          [where e = answers_no_texture and init = null_members and width = 1920
             and height = 1080 and w = world0 and new_width = 1280 and new_height = 720
             and r = renderer_1080p and release_device = False]
  by (simp add: code_defs step_def world0_def null_members_def answers_ok_def
                answers_no_texture_def renderer_1080p_def renderer_720p_no_texture_def
                platform_contract_def texture_creation_succeeds_def)

text \<open>
  C1 as the specification states it fails. A renderer is constructed at 1920 by 1080
  (handle 600, texture 400); \<open>SetSize(1280, 720)\<close> releases the texture and then cannot
  allocate the new one. The object is left with \<open>shared_texture_ = nullptr\<close> and
  \<open>handle_ = 600\<close>: a non-null handle and no texture.
\<close>

theorem stale_handle_counterexample:
  "map_option fst
     (run null_members
        [Construct answers_ok 1920 1080, Resize 0 answers_no_texture 1280 720]
        ([], world0))
   = Some [renderer_720p_no_texture]
   \<and> \<not> spec_handle_iff_texture renderer_720p_no_texture"
  by (simp add: code_defs step_def world0_def null_members_def answers_ok_def
                answers_no_texture_def renderer_720p_no_texture_def
                spec_handle_iff_texture_def)

subsection \<open>A resize that cannot allocate\<close>

text \<open>
  C2 (as amended). A \<open>SetSize\<close> to dimensions other than the stored ones, on an object
  with a device, in which \<open>CreateTexture2D\<close> reports failure, returns with the new
  dimensions stored, \<open>shared_texture_ = nullptr\<close> and every other field unchanged; in
  particular \<open>handle_\<close> keeps the value it had before the call and is not set to null.
  The calls made are the two releases of the old texture (when there was one), one
  \<open>CreateTexture2D\<close> and the failure message: there is no second attempt. A flush or a
  \<open>SetSize\<close> to the same dimensions afterwards leaves the object as it is.
\<close>

theorem SetSize_allocation_failure:
  assumes "width \<noteq> width' r \<or> height \<noteq> height' r"
    and "d3d_11_device' r \<noteq> nullptr"
    and "platform_contract e"
    and "FAILED (CreateTexture2D_hr e)"
  shows "SetSize e width height r w =
           Some (r\<lparr>width' := width, height' := height, shared_texture' := nullptr\<rparr>,
                 w\<lparr>trace := trace w
                      @ (if shared_texture' r \<noteq> nullptr
                         then [Release (shared_texture' r), Release (shared_texture' r)]
                         else [])
                      @ [CreateTexture2D (d3d_11_device' r)
                           (texture_desc (r\<lparr>width' := width, height' := height\<rparr>)),
                         Cout [Str ''media_kit: D3D11Renderer: Failure: '',
                               Str ''ID3D11Device::CreateTexture2D'', Endl]]\<rparr>)
         \<and> fst (CopyTexture
                  (r\<lparr>width' := width, height' := height, shared_texture' := nullptr\<rparr>) w2)
           = r\<lparr>width' := width, height' := height, shared_texture' := nullptr\<rparr>
         \<and> SetSize e2 width height
             (r\<lparr>width' := width, height' := height, shared_texture' := nullptr\<rparr>) w2
           = Some (r\<lparr>width' := width, height' := height, shared_texture' := nullptr\<rparr>, w2)"
  using assms
  by (auto simp: SetSize_def CleanUp_False CreateTexture_def platform_contract_def
                 FAIL_def emit_def ComPtr_release_def texture_desc_def CopyTexture_eq)

text \<open>
  The amended statement on the 1920 by 1080 object: after the failed
  \<open>SetSize(1280, 720)\<close> the texture field is null, the handle is the old one, and the
  trace holds the releases of the old texture, one allocation attempt and the message.
\<close>

theorem SetSize_allocation_failure_witness:
  "1280 \<noteq> width' renderer_1080p
   \<and> d3d_11_device' renderer_1080p \<noteq> nullptr
   \<and> platform_contract answers_no_texture
   \<and> FAILED (CreateTexture2D_hr answers_no_texture)
   \<and> map_option fst (SetSize answers_no_texture 1280 720 renderer_1080p world0)
     = Some renderer_720p_no_texture
   \<and> handle' renderer_720p_no_texture = handle' renderer_1080p
   \<and> map_option (trace \<circ> snd) (SetSize answers_no_texture 1280 720 renderer_1080p world0)
     = Some [Release 400, Release 400,
             CreateTexture2D 100 (texture_desc renderer_720p_no_texture),
             Cout [Str ''media_kit: D3D11Renderer: Failure: '',
                   Str ''ID3D11Device::CreateTexture2D'', Endl]]"
  using SetSize_allocation_failure
          [where e = answers_no_texture and width = 1280 and height = 720
             and r = renderer_1080p and w = world0]
  by (simp add: world0_def answers_ok_def answers_no_texture_def renderer_1080p_def
                renderer_720p_no_texture_def platform_contract_def FAILED_def
                texture_desc_def)

text \<open>
  C2 as the specification states it fails. \<open>SetSize(640, 480)\<close> on the 1920 by 1080
  object, with \<open>CreateTexture2D\<close> answering \<open>E_OUTOFMEMORY\<close>, leaves no texture, but
  the handle is still 600, not null.
\<close>

theorem failed_resize_handle_counterexample:
  "FAILED (CreateTexture2D_hr answers_no_texture)
   \<and> map_option fst (SetSize answers_no_texture 640 480 renderer_1080p world0)
     = Some (renderer_1080p\<lparr>width' := 640, height' := 480, shared_texture' := nullptr\<rparr>)
   \<and> \<not> spec_no_texture_null_handle
         (renderer_1080p\<lparr>width' := 640, height' := 480, shared_texture' := nullptr\<rparr>)"
  by (simp add: code_defs world0_def answers_ok_def answers_no_texture_def
                renderer_1080p_def spec_no_texture_null_handle_def)

subsection \<open>Construction\<close>

text \<open>
  C3. Under the platform's contract, for all dimensions (the positive ones among them)
  and whatever the fields start from, the constructor does one of two things. Either it
  returns an object, whose \<open>handle_\<close> is then non-null, and \<open>instance_count_\<close> has
  grown by one; or it throws, the caller has no object, and \<open>instance_count_\<close> is what
  it was. It never returns an object with a null handle, and it never calls through
  \<open>nullptr\<close>.
\<close>

theorem construction_yields_handle_or_throws:
  assumes "platform_contract e"
  shows "case D3D11Renderer init e width height w of
           Undefined_behaviour \<Rightarrow> False
         | Throws message w' \<Rightarrow> instance_count' w' = instance_count' w
         | Constructs r w' \<Rightarrow>
             handle' r \<noteq> nullptr \<and> instance_count' w' = instance_count' w + 1"
proof -
  let ?r = "init\<lparr>width' := width, height' := height, mutex' := CreateMutex_ret e\<rparr>"
  let ?w = "emit (CreateMutex nullptr False nullptr) w"
  note count = D3D11Renderer_count [where init = init and e = e and width = width
                                      and height = height and w = w]
  from CreateD3D11Device_returns [OF assms, of ?r ?w] obtain b r1 w1 where
    d: "CreateD3D11Device e ?r ?w = Some (b, r1, w1)" by auto
  show ?thesis
  proof (cases b)
    case False
    with d count show ?thesis by (simp add: D3D11Renderer_def)
  next
    case True
    with d have "d3d_11_device' r1 \<noteq> nullptr" by (simp add: CreateD3D11Device_true)
    from CreateTexture_returns [OF assms this, of w1] obtain b2 r2 w2 where
      t: "CreateTexture e r1 w1 = Some (b2, r2, w2)" by auto
    show ?thesis
    proof (cases b2)
      case False
      with d True t count show ?thesis by (simp add: D3D11Renderer_def)
    next
      case b2: True
      with t have "CreateTexture e r1 w1 = Some (True, r2, w2)" by simp
      from CreateTexture_true [OF assms this] have "handle' r2 \<noteq> nullptr" by simp
      with d True t b2 count show ?thesis by (simp add: D3D11Renderer_def)
    qed
  qed
qed

text \<open>
  Both outcomes at 1920 by 1080: every call succeeds, and the object has handle 600 and
  the counter is 1; no device can be created, and the constructor throws with the
  counter still 0.
\<close>

theorem construction_yields_handle_or_throws_witness:
  "platform_contract answers_ok
   \<and> 0 <s (1920 :: int32_t) \<and> 0 <s (1080 :: int32_t)
   \<and> (case D3D11Renderer null_members answers_ok 1920 1080 world0 of
         Undefined_behaviour \<Rightarrow> False
       | Throws message w' \<Rightarrow> False
       | Constructs r w' \<Rightarrow> handle' r = 600 \<and> instance_count' w' = 1)
   \<and> platform_contract answers_no_device
   \<and> (case D3D11Renderer null_members answers_no_device 1920 1080 world0 of
         Undefined_behaviour \<Rightarrow> False
       | Throws message w' \<Rightarrow>
           message = ''Unable to create Direct3D 11 device.'' \<and> instance_count' w' = 0
       | Constructs r w' \<Rightarrow> False)"
  using construction_yields_handle_or_throws
          [where e = answers_ok and init = null_members and width = 1920 and height = 1080
             and w = world0]
  by (simp add: code_defs world0_def null_members_def answers_ok_def answers_no_device_def
                platform_contract_def word_sless_alt)


subsection \<open>Destruction\<close>

text \<open>
  C4. The claim: destruction releases the synchronization handle and lowers the
  counter exactly once, also when device or texture creation had failed before, with
  no double free and no leak. The destructor does call \<open>ReleaseMutex\<close> and
  \<open>CloseHandle\<close> once and lowers the counter by one in every state (\<open>destructor_eq\<close>),
  and the counter follows the number of live objects (\<open>run_balance\<close>). But the code
  breaks the claim at two inputs, evaluated here.

  First, texture creation fails in part during a resize. \<open>SetSize(1280, 720)\<close> on the
  1920 by 1080 object allocates the new texture 450, and \<open>GetSharedHandle\<close> fails, so
  \<open>CreateTexture\<close> returns before \<open>shared_texture_->AddRef()\<close>: no \<open>AddRef\<close> is among
  the calls, and the object keeps texture 450 with the one reference its smart pointer
  owns. The destructor then releases texture 450 twice, as \<open>CleanUp\<close> does for a
  texture that got its second reference from \<open>AddRef\<close>: a second release of a single
  reference.

  Second, device creation fails during construction. \<open>D3D11Renderer(640, 480)\<close> has
  created the mutex when it throws; there is no object and no destructor runs, so
  \<open>CloseHandle\<close> is never called on that mutex, with no instance alive and the counter
  at zero.
\<close>

theorem destruction_after_failed_creation_evaluation:
  "map_option fst (run null_members [Construct answers_ok 1920 1080] ([], world0))
   = Some [renderer_1080p]
   \<and> SetSize answers_no_handle 1280 720 renderer_1080p world0
     = Some (renderer_720p_no_handle,
             \<lparr>instance_count' = 0,
                trace =
                  [Release 400, Release 400,
                   CreateTexture2D 100 (texture_desc renderer_720p_no_handle),
                   As_IDXGIResource 450,
                   GetSharedHandle 550,
                   Cout [Str ''media_kit: D3D11Renderer: Failure: '',
                         Str ''IDXGIResource::GetSharedHandle'', Endl],
                   Release 550]\<rparr>)
   \<and> D3D11Renderer_destructor renderer_720p_no_handle world0
     = \<lparr>instance_count' = - 1,
        trace = [Release 450, Release 450, Release 200, Release 100,
                 ReleaseMutex 700, CloseHandle 700]\<rparr>
   \<and> D3D11Renderer null_members answers_no_device 640 480 world0
     = Throws ''Unable to create Direct3D 11 device.'' world_after_failed_construction
   \<and> run null_members [Construct answers_no_device 640 480] ([], world0)
     = Some ([], world_after_failed_construction)
   \<and> length (filter is_CreateMutex (trace world_after_failed_construction)) = 1
   \<and> length (filter is_CloseHandle (trace world_after_failed_construction)) = 0
   \<and> \<not> spec_no_leak_no_double_free world_after_failed_construction"
  by (simp add: code_defs step_def world0_def null_members_def answers_ok_def
                answers_no_device_def answers_no_handle_def renderer_1080p_def
                renderer_720p_no_handle_def world_after_failed_construction_def
                spec_no_leak_no_double_free_def)

subsection \<open>Resize\<close>

text \<open>
  C5. A resize to the dimensions the renderer already has returns at once: every field,
  the exported handle among them, keeps its value, and no call is made (nothing is
  released, nothing is allocated), whatever the platform would have answered.
\<close>

theorem SetSize_same_dimensions_noop:
  "SetSize e (width' r) (height' r) r w = Some (r, w)"
  by (simp add: SetSize_def)

text \<open>
  The 1920 by 1080 object asked for 1920 by 1080, on a platform that could not
  allocate a texture: the object and the process are untouched.
\<close>

theorem SetSize_same_dimensions_noop_witness:
  "SetSize answers_no_texture 1920 1080 renderer_1080p world0 = Some (renderer_1080p, world0)"
  using SetSize_same_dimensions_noop [of answers_no_texture renderer_1080p world0]
  by (simp add: renderer_1080p_def)

subsection \<open>Flush\<close>

text \<open>
  C6. \<open>CopyTexture\<close> makes these calls in this order and no others:
  \<open>WaitForSingleObject\<close> on the mutex with the timeout \<open>INFINITE\<close>, then \<open>Flush\<close> on the
  device context exactly when the context is not null, then \<open>ReleaseMutex\<close> on the
  mutex. It changes no field of the renderer and not the counter. With no context the
  calls are the wait and the release alone; since the one call through a pointer is
  guarded, the function has no undefined behaviour in any state.
\<close>

theorem CopyTexture_wait_flush_release:
  "CopyTexture r w =
     (r, w\<lparr>trace := trace w
              @ [WaitForSingleObject (mutex' r) INFINITE]
              @ (if d3d_11_device_context' r \<noteq> nullptr
                 then [Flush (d3d_11_device_context' r)] else [])
              @ [ReleaseMutex (mutex' r)]\<rparr>)
   \<and> (d3d_11_device_context' r = nullptr \<longrightarrow>
        CopyTexture r w =
          (r, w\<lparr>trace := trace w @ [WaitForSingleObject (mutex' r) INFINITE,
                                     ReleaseMutex (mutex' r)]\<rparr>))"
  by (simp add: CopyTexture_eq)

text \<open>
  A flush of an object on which nothing has been created (no context, no texture, no
  earlier call), and a flush of the constructed 1920 by 1080 object.
\<close>

theorem CopyTexture_wait_flush_release_witness:
  "d3d_11_device_context' null_members = nullptr
   \<and> CopyTexture null_members world0 =
       (null_members,
        \<lparr>instance_count' = 0,
           trace = [WaitForSingleObject nullptr INFINITE, ReleaseMutex nullptr]\<rparr>)
   \<and> CopyTexture renderer_1080p world0 =
       (renderer_1080p,
        \<lparr>instance_count' = 0,
           trace = [WaitForSingleObject 700 INFINITE, Flush 200, ReleaseMutex 700]\<rparr>)"
  using CopyTexture_wait_flush_release [of null_members world0]
        CopyTexture_wait_flush_release [of renderer_1080p world0]
  by (simp add: world0_def null_members_def renderer_1080p_def)

subsection \<open>Device creation\<close>

text \<open>
  C7. On a Windows for which \<open>Utils::IsWindows10RTMOrGreater()\<close> is false, device
  creation on a renderer that has no device yet begins with these calls:
  \<open>CreateDXGIFactory\<close>; when that stored a factory, \<open>EnumAdapters(0, &adapter)\<close> on it,
  which asks for the first adapter, and the factory's \<open>Release\<close>; then
  \<open>D3D11CreateDevice\<close> with the driver type \<open>D3D_DRIVER_TYPE_UNKNOWN\<close> and with the
  adapter that the enumeration stored. When the enumeration stored none (or there was no
  factory) the adapter argument is \<open>nullptr\<close>, by which Direct3D is asked for its
  default adapter.
\<close>

theorem CreateD3D11Device_enumerates_on_old_windows:
  assumes "\<not> IsWindows10RTMOrGreater e"
    and "d3d_11_device' r = nullptr"
    and "platform_contract e"
  shows "\<exists>created r' rest.
           CreateD3D11Device e r w =
             Some (created, r',
                   w\<lparr>trace := trace w
                        @ [CreateDXGIFactory]
                        @ (if CreateDXGIFactory_out e \<noteq> nullptr
                           then [EnumAdapters (CreateDXGIFactory_out e) 0,
                                 Release (CreateDXGIFactory_out e)]
                           else [])
                        @ [D3D11CreateDevice
                             (if CreateDXGIFactory_out e \<noteq> nullptr
                              then EnumAdapters_out e else nullptr)
                             D3D_DRIVER_TYPE_UNKNOWN feature_levels 5]
                        @ rest\<rparr>)"
proof -
  let ?rest =
    "if FAILED (D3D11CreateDevice_hr e)
     then [Cout [Str ''media_kit: D3D11Renderer: Failure: '', Str ''D3D11CreateDevice'', Endl]]
     else [QueryInterface_IDXGIDevice (D3D11CreateDevice_device e)]
          @ (if SUCCEEDED (QueryInterface_hr e) \<and> QueryInterface_out e \<noteq> nullptr
             then [SetGPUThreadPriority (QueryInterface_out e) 5] else [])
          @ [GetFeatureLevel (D3D11CreateDevice_device e),
             Cout [Str ''media_kit: D3D11Renderer: Direct3D Feature Level: '',
                   Num (unat (drop_bit 12 (GetFeatureLevel_ret e))),
                   Str ''_'',
                   Num (unat (drop_bit 8 (GetFeatureLevel_ret e) AND 0xf)),
                   Endl]]
          @ (if QueryInterface_out e \<noteq> nullptr
             then [Release (QueryInterface_out e)] else [])"
  have "CreateD3D11Device e r w =
          Some (\<not> FAILED (D3D11CreateDevice_hr e),
                r\<lparr>d3d_11_device' := D3D11CreateDevice_device e,
                  d3d_11_device_context' := D3D11CreateDevice_context e\<rparr>,
                w\<lparr>trace := trace w
                     @ [CreateDXGIFactory]
                     @ (if CreateDXGIFactory_out e \<noteq> nullptr
                        then [EnumAdapters (CreateDXGIFactory_out e) 0,
                              Release (CreateDXGIFactory_out e)]
                        else [])
                     @ [D3D11CreateDevice
                          (if CreateDXGIFactory_out e \<noteq> nullptr
                           then EnumAdapters_out e else nullptr)
                          D3D_DRIVER_TYPE_UNKNOWN feature_levels 5]
                     @ ?rest\<rparr>)"
  proof -
    from assms have
      "FAILED (D3D11CreateDevice_hr e) \<or> D3D11CreateDevice_device e \<noteq> nullptr"
      by (auto simp: platform_contract_def)
    with assms(1,2) show ?thesis
      by (auto simp: CreateD3D11Device_def FAIL_def emit_def ComPtr_release_def
                     feature_levels_def Let_def)
  qed
  then show ?thesis by blast
qed

text \<open>
  An older Windows whose factory is at 800: with a first adapter at 900 the device is
  created on that adapter; with no adapter the device is created with a null adapter.
\<close>

theorem CreateD3D11Device_enumerates_on_old_windows_witness:
  "\<not> IsWindows10RTMOrGreater answers_old_windows
   \<and> d3d_11_device' null_members = nullptr
   \<and> platform_contract answers_old_windows
   \<and> map_option (take 4 \<circ> trace \<circ> snd \<circ> snd)
       (CreateD3D11Device answers_old_windows null_members world0)
     = Some [CreateDXGIFactory, EnumAdapters 800 0, Release 800,
             D3D11CreateDevice 900 D3D_DRIVER_TYPE_UNKNOWN feature_levels 5]
   \<and> map_option (take 4 \<circ> trace \<circ> snd \<circ> snd)
       (CreateD3D11Device (answers_old_windows\<lparr>EnumAdapters_out := nullptr\<rparr>)
          null_members world0)
     = Some [CreateDXGIFactory, EnumAdapters 800 0, Release 800,
             D3D11CreateDevice nullptr D3D_DRIVER_TYPE_UNKNOWN feature_levels 5]"
  using CreateD3D11Device_enumerates_on_old_windows
          [where e = answers_old_windows and r = null_members and w = world0]
        CreateD3D11Device_enumerates_on_old_windows
          [where e = "answers_old_windows\<lparr>EnumAdapters_out := nullptr\<rparr>"
             and r = null_members and w = world0]
  by (auto simp: world0_def null_members_def answers_ok_def answers_old_windows_def
                 platform_contract_def FAILED_def)

text \<open>
  C8. Device creation on a renderer that already has a device returns \<open>true\<close> at once:
  the device, the context and every other field are unchanged and no call is made.
\<close>

theorem CreateD3D11Device_idempotent:
  "d3d_11_device' r \<noteq> nullptr \<Longrightarrow> CreateD3D11Device e r w = Some (True, r, w)"
  by (simp add: CreateD3D11Device_def)

text \<open>
  The constructed object keeps device 100 and context 200 even on a platform that
  could not create a device.
\<close>

theorem CreateD3D11Device_idempotent_witness:
  "d3d_11_device' renderer_1080p \<noteq> nullptr
   \<and> CreateD3D11Device answers_no_device renderer_1080p world0
     = Some (True, renderer_1080p, world0)"
  using CreateD3D11Device_idempotent [of renderer_1080p answers_no_device world0]
  by (simp add: renderer_1080p_def)

subsection \<open>The stored dimensions\<close>

text \<open>
  C9. A \<open>SetSize\<close> to dimensions other than the stored ones, on an object with a device
  and under the platform's contract, returns; the object it leaves has the requested
  width and height stored, whether or not the new texture could be created. The new
  values are in place before the release and the recreation: \<open>SetSize\<close> is
  \<open>CleanUp(false)\<close> and then \<open>CreateTexture\<close>, both run on the fields with the
  requested dimensions already stored, and after the releases of the old texture the
  next call is \<open>CreateTexture2D\<close> with a descriptor whose \<open>Width\<close> and \<open>Height\<close>
  are the requested values.
\<close>

theorem SetSize_stores_new_dimensions:
  assumes "width \<noteq> width' r \<or> height \<noteq> height' r"
    and "d3d_11_device' r \<noteq> nullptr"
    and "platform_contract e"
  shows "(\<exists>r' w' rest.
            SetSize e width height r w = Some (r', w')
            \<and> width' r' = width \<and> height' r' = height
            \<and> trace w' =
                trace w
                @ (if shared_texture' r \<noteq> nullptr
                   then [Release (shared_texture' r), Release (shared_texture' r)] else [])
                @ CreateTexture2D (d3d_11_device' r)
                    (texture_desc (r\<lparr>width' := width, height' := height\<rparr>)) # rest
            \<and> Width (texture_desc (r\<lparr>width' := width, height' := height\<rparr>)) = ucast width
            \<and> Height (texture_desc (r\<lparr>width' := width, height' := height\<rparr>)) = ucast height)
         \<and> SetSize e width height r w =
             (case CreateTexture e
                     (fst (CleanUp False (r\<lparr>width' := width, height' := height\<rparr>) w))
                     (snd (CleanUp False (r\<lparr>width' := width, height' := height\<rparr>) w)) of
                None \<Rightarrow> None
              | Some (created, r', w') \<Rightarrow> Some (r', w'))"
proof -
  let ?r = "r\<lparr>width' := width, height' := height, shared_texture' := nullptr\<rparr>"
  let ?w = "w\<lparr>trace := trace w
                @ (if shared_texture' r \<noteq> nullptr
                   then [Release (shared_texture' r), Release (shared_texture' r)]
                   else [])\<rparr>"
  have c: "CleanUp False (r\<lparr>width' := width, height' := height\<rparr>) w = (?r, ?w)"
    by (simp add: CleanUp_False)
  from assms(2) have "d3d_11_device' ?r \<noteq> nullptr" by simp
  from CreateTexture_returns [OF assms(3) this, of ?w] obtain created r' w' where
    t: "CreateTexture e ?r ?w = Some (created, r', w')" by auto
  from assms(1) c t have s: "SetSize e width height r w = Some (r', w')"
    by (auto simp: SetSize_def)
  from CreateTexture_keeps [OF t] have d: "width' r' = width" "height' r' = height"
    by simp_all
  from CreateTexture_trace [OF t] obtain rest where
    "trace w' = trace ?w @ CreateTexture2D (d3d_11_device' ?r) (texture_desc ?r) # rest"
    by auto
  then have "trace w' =
               trace w
               @ (if shared_texture' r \<noteq> nullptr
                  then [Release (shared_texture' r), Release (shared_texture' r)] else [])
               @ CreateTexture2D (d3d_11_device' r)
                   (texture_desc (r\<lparr>width' := width, height' := height\<rparr>)) # rest"
    by (simp add: texture_desc_def)
  with s d have first:
    "\<exists>r' w' rest.
       SetSize e width height r w = Some (r', w')
       \<and> width' r' = width \<and> height' r' = height
       \<and> trace w' =
           trace w
           @ (if shared_texture' r \<noteq> nullptr
              then [Release (shared_texture' r), Release (shared_texture' r)] else [])
           @ CreateTexture2D (d3d_11_device' r)
               (texture_desc (r\<lparr>width' := width, height' := height\<rparr>)) # rest
       \<and> Width (texture_desc (r\<lparr>width' := width, height' := height\<rparr>)) = ucast width
       \<and> Height (texture_desc (r\<lparr>width' := width, height' := height\<rparr>)) = ucast height"
    by (simp add: texture_desc_def)
  from assms(1) have
    "SetSize e width height r w =
       (case CreateTexture e
               (fst (CleanUp False (r\<lparr>width' := width, height' := height\<rparr>) w))
               (snd (CleanUp False (r\<lparr>width' := width, height' := height\<rparr>) w)) of
          None \<Rightarrow> None
        | Some (created, r', w') \<Rightarrow> Some (r', w'))"
    by (auto simp: SetSize_def split: prod.splits)
  with first show ?thesis by blast
qed

text \<open>
  \<open>SetSize(1280, 720)\<close> on the 1920 by 1080 object when the texture cannot be
  allocated: 1280 and 720 are stored, the texture is gone, and the allocation was asked
  for 1280 by 720. The same request when every call succeeds stores them as well.
\<close>

theorem SetSize_stores_new_dimensions_witness:
  "1280 \<noteq> width' renderer_1080p
   \<and> d3d_11_device' renderer_1080p \<noteq> nullptr
   \<and> platform_contract answers_no_texture
   \<and> map_option ((\<lambda>r. (width' r, height' r, shared_texture' r)) \<circ> fst)
       (SetSize answers_no_texture 1280 720 renderer_1080p world0)
     = Some (1280, 720, nullptr)
   \<and> map_option (take 3 \<circ> trace \<circ> snd)
       (SetSize answers_no_texture 1280 720 renderer_1080p world0)
     = Some [Release 400, Release 400,
             CreateTexture2D 100
               (texture_desc (renderer_1080p\<lparr>width' := 1280, height' := 720\<rparr>))]
   \<and> Width (texture_desc (renderer_1080p\<lparr>width' := 1280, height' := 720\<rparr>)) = 1280
   \<and> Height (texture_desc (renderer_1080p\<lparr>width' := 1280, height' := 720\<rparr>)) = 720
   \<and> map_option ((\<lambda>r. (width' r, height' r, shared_texture' r)) \<circ> fst)
       (SetSize answers_ok 1280 720 renderer_1080p world0)
     = Some (1280, 720, 400)"
  using SetSize_stores_new_dimensions
          [where e = answers_no_texture and width = 1280 and height = 720
             and r = renderer_1080p and w = world0]
  by (auto simp: code_defs world0_def answers_ok_def answers_no_texture_def
                 renderer_1080p_def platform_contract_def)

subsection \<open>The lock\<close>

text \<open>
  C10. One \<open>CopyTexture\<close> adds exactly one wait and exactly one release on the
  renderer's mutex to the trace, and the release is the last call it makes before it
  returns, with or without a device context. Hence, for every mutex, the number of
  waits minus the number of releases is the same after any sequence of flushes (of any
  renderers) as before it.
\<close>

theorem CopyTexture_lock_balance:
  "acquires (mutex' r) (snd (CopyTexture r w)) = acquires (mutex' r) w + 1
   \<and> releases (mutex' r) (snd (CopyTexture r w)) = releases (mutex' r) w + 1
   \<and> last (trace (snd (CopyTexture r w))) = ReleaseMutex (mutex' r)
   \<and> int (acquires m (flush_each rs w)) - int (releases m (flush_each rs w))
     = int (acquires m w) - int (releases m w)"
  by (simp add: CopyTexture_counts flush_each_balance) (simp add: CopyTexture_eq)

text \<open>
  Three flushes from the program's start, two of the constructed object (mutex 700,
  context 200) and one of an object without a context: mutex 700 is waited for twice
  and released twice.
\<close>

theorem CopyTexture_lock_balance_witness:
  "acquires 700 (flush_each [renderer_1080p, null_members, renderer_1080p] world0) = 2
   \<and> releases 700 (flush_each [renderer_1080p, null_members, renderer_1080p] world0) = 2
   \<and> trace (flush_each [renderer_1080p, null_members] world0)
     = [WaitForSingleObject 700 INFINITE, Flush 200, ReleaseMutex 700,
        WaitForSingleObject nullptr INFINITE, ReleaseMutex nullptr]"
proof -
  have "acquires 700 (flush_each [renderer_1080p, null_members, renderer_1080p] world0) = 2"
    by (simp add: acquires_def CopyTexture_def emit_def world0_def null_members_def
                  renderer_1080p_def)
  moreover have "trace (flush_each [renderer_1080p, null_members] world0)
     = [WaitForSingleObject 700 INFINITE, Flush 200, ReleaseMutex 700,
        WaitForSingleObject nullptr INFINITE, ReleaseMutex nullptr]"
    by (simp add: CopyTexture_def emit_def world0_def null_members_def renderer_1080p_def)
  moreover have "acquires 700 world0 = 0" "releases 700 world0 = 0"
    by (simp_all add: acquires_def releases_def world0_def)
  ultimately show ?thesis
    using CopyTexture_lock_balance
            [where m = 700 and rs = "[renderer_1080p, null_members, renderer_1080p]"
               and w = world0]
    by simp
qed

end
